theory Spec2Isabelle
  imports Main "HOL-Library.AList" "HOL-Library.Multiset"
begin

section \<open>Python values, exceptions and effects\<close>

text \<open>
  An exception is kept as its class name and the text that \<open>str(e)\<close> gives. Every handler
  of the program is \<open>except Exception\<close>, so the class never decides a branch.
\<close>

datatype exn = Exception string string

fun str_exn :: "exn \<Rightarrow> string" where
  "str_exn (Exception cls msg) = msg"

text \<open>The elements the program puts into a record list: \<open>str\<close> objects and \<open>int\<close> objects.\<close>

datatype pyval = is_str: PyStr string | PyInt int

text \<open>
  The value stored under one record type: the list built by a branch of the
  \<open>if\<close>/\<open>elif\<close> chain, or the string \<open>f"Error: {e}"\<close> of the handler.
\<close>

datatype recval = RList "pyval list" | RStr string

type_synonym records = "(string \<times> recval) list"

text \<open>
  A resource record as the resolver library hands it over. The program reads attributes
  by name; an attribute the object does not have is \<open>None\<close> here and reading it raises
  \<open>AttributeError\<close>. A name object is kept as the text \<open>str\<close> gives for it.
\<close>

record rdata =
  to_text :: string
  address :: "string option"
  exchange :: "string option"
  target :: "string option"
  mname :: "string option"
  rname :: "string option"
  serial :: "int option"
  priority :: "int option"
  weight :: "int option"
  port :: "int option"

datatype level = INFO | WARNING | ERROR

text \<open>
  A log record is kept as the arguments of its format string, in the order the source
  writes them; the rendering of the text line is not modelled.
\<close>

datatype logmsg =
    Fetched string string recval
  | ErrorFetching string string exn
  | Nameservers string "string list"
  | FailedNS string exn
  | XfrAllowed string string
  | XfrDenied string string
  | InventoryNotFound string
  | InventoryLoaded nat
  | NoJinja2
  | HtmlWritten string
  | NoPandas
  | XlsxWritten string
  | AlertSent "string option"
  | FailedEmail exn
  | ErrorAnalyzing string exn

record email =
  mail_server :: string
  mail_port :: int
  mail_user :: "string option"
  mail_password :: "string option"
  mail_to :: "string option"
  mail_subject :: string
  mail_body :: string

type_synonym results = "(string \<times> records) list"

datatype effect =
    Log level logmsg
  | Print string
  | WriteReport string string results
  | SendMail email

text \<open>
  The world outside the program: the resolver, the zone-transfer client, the file system,
  the optional renderers, the mail server and the order in which the pool's futures
  complete.
\<close>

record env =
  dns_resolve :: "string \<Rightarrow> string \<Rightarrow> exn + rdata list"
  dns_xfr :: "string \<Rightarrow> string \<Rightarrow> exn + string list"
  path_exists :: "string \<Rightarrow> bool"
  open_lines :: "string \<Rightarrow> exn + string list"
  jinja2_installed :: bool
  pandas_installed :: bool
  write_file :: "string \<Rightarrow> exn option"
  smtp_deliver :: "email \<Rightarrow> exn option"
  completion_order :: "nat list"

section \<open>Formatting\<close>

definition digit :: "nat \<Rightarrow> char" where
  "digit n = ''0123456789'' ! n"

fun str_nat :: "nat \<Rightarrow> string" where
  "str_nat n = (if n < 10 then [digit n] else str_nat (n div 10) @ [digit (n mod 10)])"

declare str_nat.simps [simp del]

definition str_int :: "int \<Rightarrow> string" where
  "str_int i = (if i < 0 then CHR ''-'' # str_nat (nat (- i)) else str_nat (nat i))"

text \<open>
  Reading an attribute. The message of the \<open>AttributeError\<close> is shortened to the name of
  the attribute.
\<close>

definition getattr :: "'a option \<Rightarrow> string \<Rightarrow> exn + 'a" where
  "getattr v name =
     (case v of None \<Rightarrow> Inl (Exception ''AttributeError'' name) | Some x \<Rightarrow> Inr x)"

text \<open>A list comprehension whose element expression may raise: the first raise ends it.\<close>

fun comprehension :: "('a \<Rightarrow> exn + 'b) \<Rightarrow> 'a list \<Rightarrow> exn + 'b list" where
  "comprehension f [] = Inr []"
| "comprehension f (x # xs) =
     (case f x of
        Inl e \<Rightarrow> Inl e
      | Inr y \<Rightarrow> (case comprehension f xs of Inl e \<Rightarrow> Inl e | Inr ys \<Rightarrow> Inr (y # ys)))"

definition str_attr :: "string option \<Rightarrow> string \<Rightarrow> exn + pyval" where
  "str_attr v name = (case getattr v name of Inl e \<Rightarrow> Inl e | Inr s \<Rightarrow> Inr (PyStr s))"

definition srv_text :: "rdata \<Rightarrow> exn + pyval" where
  "srv_text r =
     (case getattr (priority r) ''priority'' of Inl e \<Rightarrow> Inl e | Inr p \<Rightarrow>
      (case getattr (weight r) ''weight'' of Inl e \<Rightarrow> Inl e | Inr w \<Rightarrow>
       (case getattr (port r) ''port'' of Inl e \<Rightarrow> Inl e | Inr q \<Rightarrow>
        (case getattr (target r) ''target'' of Inl e \<Rightarrow> Inl e | Inr t \<Rightarrow>
           Inr (PyStr (str_int p @ '' '' @ str_int w @ '' '' @ str_int q @ '' '' @ t))))))"

section \<open>Record analysis\<close>

definition types :: "string list" where
  "types = [''A'', ''AAAA'', ''MX'', ''TXT'', ''NS'', ''CNAME'', ''SOA'', ''SRV'', ''PTR'']"

text \<open>
  The \<open>if\<close>/\<open>elif\<close> chain of \<open>analyze_dns_records\<close>: the value assigned to
  \<open>records[rtype]\<close> from a successful answer, or the exception raised while building it.
  When no branch assigns, reading \<open>records[rtype]\<close> for the log line raises \<open>KeyError\<close>.
\<close>

definition format_answers :: "string \<Rightarrow> rdata list \<Rightarrow> exn + pyval list" where
  "format_answers rtype answers =
     (if rtype \<in> set [''A'', ''AAAA'']
        then comprehension (\<lambda>r. str_attr (address r) ''address'') answers
      else if rtype = ''MX''
        then comprehension (\<lambda>r. str_attr (exchange r) ''exchange'') answers
      else if rtype = ''TXT''
        then Inr (map (\<lambda>r. PyStr (to_text r)) answers)
      else if rtype = ''NS''
        then comprehension (\<lambda>r. str_attr (target r) ''target'') answers
      else if rtype = ''CNAME''
        then comprehension (\<lambda>r. str_attr (target r) ''target'') answers
      else if rtype = ''SOA''
        then (case answers of
                [] \<Rightarrow> Inl (Exception ''IndexError'' ''list index out of range'')
              | soa # _ \<Rightarrow>
                 (case getattr (mname soa) ''mname'' of Inl e \<Rightarrow> Inl e | Inr m \<Rightarrow>
                  (case getattr (rname soa) ''rname'' of Inl e \<Rightarrow> Inl e | Inr n \<Rightarrow>
                   (case getattr (serial soa) ''serial'' of Inl e \<Rightarrow> Inl e | Inr s \<Rightarrow>
                      Inr [PyStr m, PyStr n, PyInt s]))))
      else if rtype = ''SRV''
        then comprehension srv_text answers
      else if rtype = ''PTR''
        then comprehension (\<lambda>r. str_attr (target r) ''target'') answers
      else Inl (Exception ''KeyError'' (CHR 0x27 # rtype @ [CHR 0x27])))"

text \<open>The body of the \<open>try\<close>: the query, then the chain.\<close>

definition fetch :: "env \<Rightarrow> string \<Rightarrow> string \<Rightarrow> exn + pyval list" where
  "fetch world dname rtype =
     (case dns_resolve world dname rtype of
        Inl e \<Rightarrow> Inl e
      | Inr answers \<Rightarrow> format_answers rtype answers)"

text \<open>
  The \<open>for rtype in types\<close> loop, carrying the dictionary (in insertion order) and the
  log records written so far.
\<close>

fun analyze_loop ::
  "env \<Rightarrow> string \<Rightarrow> string list \<Rightarrow> records \<times> effect list \<Rightarrow> records \<times> effect list"
where
  "analyze_loop world dname [] acc = acc"
| "analyze_loop world dname (rtype # rest) (recs, out) =
     (case fetch world dname rtype of
        Inr vals \<Rightarrow>
          analyze_loop world dname rest
            (AList.update rtype (RList vals) recs,
             out @ [Log INFO (Fetched rtype dname (RList vals))])
      | Inl e \<Rightarrow>
          analyze_loop world dname rest
            (AList.update rtype (RStr (''Error: '' @ str_exn e)) recs,
             out @ [Log ERROR (ErrorFetching rtype dname e)]))"

definition analyze_dns_records :: "env \<Rightarrow> string \<Rightarrow> records \<times> effect list" where
  "analyze_dns_records world dname = analyze_loop world dname types ([], [])"

text \<open>
  What the loop stores for one outcome of the \<open>try\<close> body: the list on success, the
  error string otherwise. Used to state what the dictionary holds.
\<close>

definition stored :: "exn + pyval list \<Rightarrow> recval" where
  "stored r = (case r of Inr vals \<Rightarrow> RList vals | Inl e \<Rightarrow> RStr (''Error: '' @ str_exn e))"

section \<open>Zone transfer check\<close>

definition get_nameservers :: "env \<Rightarrow> string \<Rightarrow> string list \<times> effect list" where
  "get_nameservers world dname =
     (case (case dns_resolve world dname ''NS'' of
              Inl e \<Rightarrow> Inl e
            | Inr answers \<Rightarrow> comprehension (\<lambda>s. getattr (target s) ''target'') answers) of
        Inr ns \<Rightarrow> (ns, [Log INFO (Nameservers dname ns)])
      | Inl e \<Rightarrow> ([], [Log ERROR (FailedNS dname e)]))"

text \<open>
  \<open>dns_xfr world nameserver dname\<close> stands for
  \<open>dns.zone.from_xfr(dns.query.xfr(nameserver, domain, timeout=5)).to_text().splitlines()\<close>:
  the lines of the transferred zone, or the exception any of these calls raises.
\<close>

definition check_zone_transfer :: "env \<Rightarrow> string \<Rightarrow> string \<Rightarrow> string list \<times> effect list" where
  "check_zone_transfer world dname nameserver =
     (case dns_xfr world nameserver dname of
        Inr data \<Rightarrow> (data, [Log WARNING (XfrAllowed nameserver dname)])
      | Inl e \<Rightarrow> ([], [Log INFO (XfrDenied nameserver dname)]))"

section \<open>Inventory\<close>

text \<open>The ASCII characters for which \<open>str.isspace\<close> holds; \<open>str.strip()\<close> removes them.\<close>

definition isspace :: "char \<Rightarrow> bool" where
  "isspace c =
     (c \<in> set [CHR 0x09, CHR 0x0A, CHR 0x0B, CHR 0x0C, CHR 0x0D,
               CHR 0x1C, CHR 0x1D, CHR 0x1E, CHR 0x1F, CHR 0x20])"

definition strip :: "string \<Rightarrow> string" where
  "strip s = rev (dropWhile isspace (rev (dropWhile isspace s)))"

text \<open>
  \<open>open_lines world path\<close> is the list of lines that iterating the opened file gives, or
  the exception \<open>open\<close> raises; \<open>load_inventory\<close> does not catch it.
\<close>

definition load_inventory :: "env \<Rightarrow> string \<Rightarrow> (exn + string list) \<times> effect list" where
  "load_inventory world path =
     (if \<not> path_exists world path
        then (Inr [], [Log ERROR (InventoryNotFound path)])
      else (case open_lines world path of
              Inl e \<Rightarrow> (Inl e, [])
            | Inr lines \<Rightarrow>
                (let domains = map strip (filter (\<lambda>line. strip line \<noteq> []) lines)
                 in (Inr domains, [Log INFO (InventoryLoaded (length domains))]))))"

section \<open>Reports and mail\<close>

text \<open>
  The rendered text of a report is not modelled: a written report is the effect
  \<open>WriteReport\<close> with the format, the path and the results it was rendered from.
  \<open>write_file world output\<close> is the exception that writing to the path raises, if any.
\<close>

text \<open>
  The module imports \<open>pandas\<close> and then \<open>Template\<close> of \<open>jinja2\<close> in one \<open>try\<close>; when
  either import fails the handler sets both \<open>pd\<close> and \<open>Template\<close> to \<open>None\<close>. So the two
  names are set together or not at all.
\<close>

definition optional_imports :: "env \<Rightarrow> bool" where
  "optional_imports world = (pandas_installed world \<and> jinja2_installed world)"

definition generate_html_report :: "env \<Rightarrow> results \<Rightarrow> string \<Rightarrow> exn option \<times> effect list" where
  "generate_html_report world res output =
     (if \<not> optional_imports world
        then (None, [Log ERROR NoJinja2])
      else (case write_file world output of
              Some e \<Rightarrow> (Some e, [])
            | None \<Rightarrow> (None, [WriteReport ''html'' output res, Log INFO (HtmlWritten output)])))"

definition generate_xlsx_report :: "env \<Rightarrow> results \<Rightarrow> string \<Rightarrow> exn option \<times> effect list" where
  "generate_xlsx_report world res output =
     (if \<not> optional_imports world
        then (None, [Log ERROR NoPandas])
      else (case write_file world output of
              Some e \<Rightarrow> (Some e, [])
            | None \<Rightarrow> (None, [WriteReport ''xlsx'' output res, Log INFO (XlsxWritten output)])))"

text \<open>
  \<open>smtp_deliver world m\<close> is the exception raised somewhere between building the
  message and \<open>server.quit()\<close>, if any; the function catches it.
\<close>

definition send_email_notification ::
  "env \<Rightarrow> string \<Rightarrow> int \<Rightarrow> string option \<Rightarrow> string option \<Rightarrow> string option \<Rightarrow> string \<Rightarrow> string
     \<Rightarrow> effect list"
where
  "send_email_notification world server prt user password to_addr subject body =
     (let m = \<lparr>mail_server = server, mail_port = prt, mail_user = user,
                mail_password = password, mail_to = to_addr, mail_subject = subject,
                mail_body = body\<rparr>
      in case smtp_deliver world m of
           None \<Rightarrow> [SendMail m, Log INFO (AlertSent to_addr)]
         | Some e \<Rightarrow> [Log ERROR (FailedEmail e)])"

section \<open>Command line\<close>

text \<open>
  The namespace that \<open>parser.parse_args()\<close> returns. Parsing the command line, and the
  exit of the parser on a malformed one, are not modelled.
\<close>

record args =
  domain :: "string option"
  inventory :: "string option"
  zone_transfer :: bool
  history :: bool
  email_security :: bool
  report :: "string option"
  report_out :: string
  alert_email :: bool
  smtp_server :: "string option"
  smtp_port :: int
  smtp_user :: "string option"
  smtp_pass :: "string option"
  to_email :: "string option"

text \<open>Truth value of an optional string argument: \<open>None\<close> and the empty string are false.\<close>

definition truthy :: "string option \<Rightarrow> string option" where
  "truthy v = (case v of None \<Rightarrow> None | Some s \<Rightarrow> if s = [] then None else Some s)"

section \<open>Parallel execution\<close>

text \<open>
  \<open>as_completed\<close> yields the futures in the order they finish. The order is the world's
  choice: each number of \<open>completion_order\<close> picks one of the futures still pending.
\<close>

function as_completed :: "nat list \<Rightarrow> 'a list \<Rightarrow> 'a list" where
  "as_completed ks [] = []"
| "as_completed [] (x # xs) = x # xs"
| "as_completed (k # ks) (x # xs) =
     (let i = k mod length (x # xs)
      in (x # xs) ! i # as_completed ks (take i (x # xs) @ drop (Suc i) (x # xs)))"
  by pat_completeness auto
termination
  by (relation "measure (\<lambda>(ks, xs). length xs)") auto

text \<open>
  The body of \<open>for future in as_completed(future_map)\<close>. A future is the domain it was
  submitted for and what \<open>future.result()\<close> gives: the records or the raised exception.
\<close>

fun collect ::
  "(string \<times> (exn + records)) list \<Rightarrow> results \<times> effect list \<Rightarrow> results \<times> effect list"
where
  "collect [] acc = acc"
| "collect ((dname, outcome) # futures) (res, out) =
     (case outcome of
        Inr recs \<Rightarrow> collect futures (AList.update dname recs res, out)
      | Inl e \<Rightarrow> collect futures (res, out @ [Log ERROR (ErrorAnalyzing dname e)]))"

text \<open>
  \<open>executor.submit(analyze_dns_records, d)\<close> for each domain: the task catches every
  exception of its queries, so its future holds records. The tasks' log records are
  placed in submission order.
\<close>

definition submit_all :: "env \<Rightarrow> string list \<Rightarrow> (string \<times> (exn + records)) list \<times> effect list" where
  "submit_all world domains =
     (map (\<lambda>d. (d, Inr (fst (analyze_dns_records world d)))) domains,
      concat (map (\<lambda>d. snd (analyze_dns_records world d)) domains))"

section \<open>Alert\<close>

definition alert_line :: "string \<Rightarrow> string \<Rightarrow> string" where
  "alert_line dname nsrv = ''[ALERT] '' @ dname @ '' allows zone transfer on '' @ nsrv"

text \<open>The loop \<open>for nsrv in ns\<close>.\<close>

fun probe_loop ::
  "env \<Rightarrow> string \<Rightarrow> string list \<Rightarrow> string list \<times> effect list \<Rightarrow> string list \<times> effect list"
where
  "probe_loop world dname [] acc = acc"
| "probe_loop world dname (nsrv # rest) (body, out) =
     (case check_zone_transfer world dname nsrv of
        (z, w) \<Rightarrow>
          probe_loop world dname rest
            (if z \<noteq> [] then body @ [alert_line dname nsrv] else body, out @ w))"

text \<open>The loop \<open>for dom, recs in results.items()\<close>.\<close>

fun alert_loop ::
  "env \<Rightarrow> results \<Rightarrow> string list \<times> effect list \<Rightarrow> string list \<times> effect list"
where
  "alert_loop world [] acc = acc"
| "alert_loop world ((dname, recs) # rest) (body, out) =
     (case get_nameservers world dname of
        (ns, w) \<Rightarrow> alert_loop world rest (probe_loop world dname ns (body, out @ w)))"

section \<open>The blocks of main\<close>

text \<open>
  The body of \<open>main\<close> is taken block by block; each block below is a well-formed
  fragment of it. The call of \<open>send_email_notification\<close> at lines 200 to 206 is not among
  them: its last argument is not an expression (see the module's text below).
\<close>

text \<open>
  Lines 163 to 170, the choice of the domains: \<open>Inr (Some domains)\<close> when \<open>main\<close> goes on
  with these domains, \<open>Inr None\<close> when it prints the hint and returns, \<open>Inl e\<close> when
  opening the inventory raises.
\<close>

definition select_domains ::
  "args \<Rightarrow> env \<Rightarrow> (exn + string list option) \<times> effect list"
where
  "select_domains a world =
     (case truthy (inventory a) of
        Some path \<Rightarrow>
          (case load_inventory world path of
             (Inl e, out) \<Rightarrow> (Inl e, out)
           | (Inr domains, out) \<Rightarrow> (Inr (Some domains), out))
      | None \<Rightarrow>
          (case truthy (domain a) of
             Some d \<Rightarrow> (Inr (Some [d]), [])
           | None \<Rightarrow> (Inr None, [Print ''Specify --inventory or a single domain''])))"

text \<open>
  The pool: submit one task per domain, then store each finished future's records under
  its domain. \<open>out0\<close> holds the effects before the pool starts.
\<close>

definition orchestrate :: "env \<Rightarrow> string list \<Rightarrow> effect list \<Rightarrow> results \<times> effect list" where
  "orchestrate world domains out0 =
     (case submit_all world domains of
        (future_map, task_out) \<Rightarrow>
          collect (as_completed (completion_order world) future_map) ([], out0 @ task_out))"

text \<open>Lines 185 to 188, the report.\<close>

definition reporting :: "args \<Rightarrow> env \<Rightarrow> results \<Rightarrow> exn option \<times> effect list" where
  "reporting a world res =
     (if report a = Some ''html'' then generate_html_report world res (report_out a)
      else if report a = Some ''xlsx'' then generate_xlsx_report world res (report_out a)
      else (None, []))"

text \<open>
  Line 191, the condition \<open>args.alert_email and args.smtp_server\<close>: the mail server when
  the alert block is entered.
\<close>

definition alert_enabled :: "args \<Rightarrow> string option" where
  "alert_enabled a = (if alert_email a then truthy (smtp_server a) else None)"

section \<open>The module's text\<close>

text \<open>
  Physical lines 204 and 205 of the file, as they stand: line 204 ends with a single
  quote, line 205 begins with one.
\<close>

definition line_204 :: string where
  "line_204 =
     replicate 16 (CHR 0x20) @ CHR 0x22 # ''DNS Suite Alert'' @ CHR 0x22 # '', '' @ [CHR 0x27]"

definition line_205 :: string where
  "line_205 = CHR 0x27 # ''.join(body)''"

text \<open>
  Python's rule for a string literal in single or in double quotes: it ends at the next
  occurrence of its quote on the same physical line; a backslash takes the character
  after it along, and a backslash at the end of the line continues the literal on the
  next line. The scan below goes through one physical line; its first argument is the
  quote of the literal it is in, if any. A \<open>#\<close> outside a literal starts a comment.
  Triple-quoted literals are not treated; lines 204 and 205 hold none.
\<close>

datatype line_end = Balanced | Continues char | Unterminated char

fun short_strings :: "char option \<Rightarrow> string \<Rightarrow> line_end" where
  "short_strings None [] = Balanced"
| "short_strings (Some q) [] = Unterminated q"
| "short_strings None (c # cs) =
     (if c = CHR ''#'' then Balanced
      else if c = CHR 0x22 \<or> c = CHR 0x27 then short_strings (Some c) cs
      else short_strings None cs)"
| "short_strings (Some q) (c # cs) =
     (if c = q then short_strings None cs
      else if c = CHR 0x5C
        then (case cs of [] \<Rightarrow> Continues q | c' # cs' \<Rightarrow> short_strings (Some q) cs')
      else short_strings (Some q) cs)"

definition syntax_error :: exn where
  "syntax_error =
     Exception ''SyntaxError'' ''unterminated string literal (detected at line 204)''"

text \<open>The error the compiler raises for the file; line 204 is the line it looks at here.\<close>

definition module_error :: "exn option" where
  "module_error =
     (case short_strings None line_204 of
        Unterminated q \<Rightarrow> Some syntax_error
      | Continues q \<Rightarrow> None
      | Balanced \<Rightarrow> None)"

text \<open>
  Python compiles the whole file before it runs the first statement of the module.
  \<open>statements\<close> stands for what running the statements would give (the exception that
  ends them, if any, and their effects); when the compiler raises, none of them runs and
  the process ends with the compiler's error.
\<close>

definition run_module :: "exn option \<times> effect list \<Rightarrow> exn option \<times> effect list" where
  "run_module statements =
     (case module_error of Some e \<Rightarrow> (Some e, []) | None \<Rightarrow> statements)"

text \<open>The exit status of the process: 0 when it ends without an exception, 1 otherwise.\<close>

definition exit_status :: "exn option \<times> effect list \<Rightarrow> nat" where
  "exit_status r = (case fst r of None \<Rightarrow> 0 | Some e \<Rightarrow> 1)"

section \<open>Reading the effects and the results\<close>

text \<open>
  The names below are not in the source; they are the notions the properties are stated
  with. A pair is exposed when the probe's value passes the test of \<open>if z:\<close>.
\<close>

definition exposed :: "env \<Rightarrow> string \<Rightarrow> string \<Rightarrow> bool" where
  "exposed world dname nsrv = (fst (check_zone_transfer world dname nsrv) \<noteq> [])"

definition exposed_pairs :: "env \<Rightarrow> results \<Rightarrow> (string \<times> string) list" where
  "exposed_pairs world res =
     concat (map (\<lambda>(dname, recs).
        map (Pair dname) (filter (exposed world dname) (fst (get_nameservers world dname))))
       res)"

text \<open>The futures that hold records, and those that hold an exception.\<close>

fun successes :: "(string \<times> (exn + records)) list \<Rightarrow> (string \<times> records) list" where
  "successes [] = []"
| "successes ((d, Inr recs) # fs) = (d, recs) # successes fs"
| "successes ((d, Inl e) # fs) = successes fs"

fun failures :: "(string \<times> (exn + records)) list \<Rightarrow> (string \<times> exn) list" where
  "failures [] = []"
| "failures ((d, Inl e) # fs) = (d, e) # failures fs"
| "failures ((d, Inr recs) # fs) = failures fs"

text \<open>
  The messages delivered, the zone transfers tried, the record queries made and the lines
  printed, read off the effects.
\<close>

fun mails :: "effect list \<Rightarrow> email list" where
  "mails [] = []"
| "mails (SendMail m # es) = m # mails es"
| "mails (e # es) = mails es"

fun probes :: "effect list \<Rightarrow> (string \<times> string) list" where
  "probes [] = []"
| "probes (Log lv (XfrAllowed nsrv dname) # es) = (nsrv, dname) # probes es"
| "probes (Log lv (XfrDenied nsrv dname) # es) = (nsrv, dname) # probes es"
| "probes (e # es) = probes es"

fun queries :: "effect list \<Rightarrow> (string \<times> string) list" where
  "queries [] = []"
| "queries (Log lv (Fetched rtype dname v) # es) = (dname, rtype) # queries es"
| "queries (Log lv (ErrorFetching rtype dname e) # es) = (dname, rtype) # queries es"
| "queries (e # es) = queries es"

fun printed :: "effect list \<Rightarrow> string list" where
  "printed [] = []"
| "printed (Print s # es) = s # printed es"
| "printed (e # es) = printed es"

section \<open>Example worlds\<close>

definition no_attrs :: rdata where
  "no_attrs =
     \<lparr>to_text = [], address = None, exchange = None, target = None, mname = None,
      rname = None, serial = None, priority = None, weight = None, port = None\<rparr>"

definition nxdomain :: exn where
  "nxdomain = Exception ''NXDOMAIN'' ''The DNS query name does not exist''"

definition refused :: exn where
  "refused = Exception ''TransferError'' ''Zone transfer error: REFUSED''"

text \<open>
  A resolver that knows \<open>x.com\<close>: one address, two nameservers, two SOA answers; every
  other query fails.
\<close>

definition x_com_resolver :: "string \<Rightarrow> string \<Rightarrow> exn + rdata list" where
  "x_com_resolver dname rtype =
     (if dname = ''x.com'' \<and> rtype = ''A''
        then Inr [no_attrs\<lparr>to_text := ''93.184.216.34'', address := Some ''93.184.216.34''\<rparr>]
      else if dname = ''x.com'' \<and> rtype = ''NS''
        then Inr [no_attrs\<lparr>to_text := ''ns1.x.com.'', target := Some ''ns1.x.com.''\<rparr>,
                  no_attrs\<lparr>to_text := ''ns2.x.com.'', target := Some ''ns2.x.com.''\<rparr>]
      else if dname = ''x.com'' \<and> rtype = ''SOA''
        then Inr [no_attrs\<lparr>mname := Some ''ns1.x.com.'', rname := Some ''admin.x.com.'',
                            serial := Some 2024\<rparr>,
                  no_attrs\<lparr>mname := Some ''ns2.x.com.'', rname := Some ''root.x.com.'',
                            serial := Some 7\<rparr>]
      else Inl nxdomain)"

text \<open>The first nameserver permits the transfer of \<open>x.com\<close>, every other request is refused.\<close>

definition open_ns1 :: "string \<Rightarrow> string \<Rightarrow> exn + string list" where
  "open_ns1 nameserver dname =
     (if nameserver = ''ns1.x.com.'' \<and> dname = ''x.com'' then Inr [''a.'', ''b.'']
      else Inl refused)"

text \<open>The first nameserver permits the transfer and the zone has no line.\<close>

definition empty_ns1 :: "string \<Rightarrow> string \<Rightarrow> exn + string list" where
  "empty_ns1 nameserver dname =
     (if nameserver = ''ns1.x.com.'' \<and> dname = ''x.com'' then Inr []
      else Inl refused)"

definition refuse_all :: "string \<Rightarrow> string \<Rightarrow> exn + string list" where
  "refuse_all nameserver dname = Inl refused"

definition x_com_world :: env where
  "x_com_world =
     \<lparr>dns_resolve = x_com_resolver, dns_xfr = open_ns1, path_exists = (\<lambda>p. False),
      open_lines = (\<lambda>p. Inl (Exception ''FileNotFoundError'' p)),
      jinja2_installed = True, pandas_installed = True, write_file = (\<lambda>p. None),
      smtp_deliver = (\<lambda>m. None), completion_order = [1, 0]\<rparr>"

definition empty_zone_world :: env where
  "empty_zone_world = x_com_world\<lparr>dns_xfr := empty_ns1\<rparr>"

definition refusing_world :: env where
  "refusing_world = x_com_world\<lparr>dns_xfr := refuse_all\<rparr>"

definition no_args :: args where
  "no_args =
     \<lparr>domain = None, inventory = None, zone_transfer = False, history = False,
      email_security = False, report = None, report_out = ''report.html'',
      alert_email = False, smtp_server = None, smtp_port = 587, smtp_user = None,
      smtp_pass = None, to_email = None\<rparr>"

definition boom :: exn where
  "boom = Exception ''RuntimeError'' ''boom''"

text \<open>Three finished futures, the second of which holds an exception.\<close>

definition three_futures :: "(string \<times> (exn + records)) list" where
  "three_futures =
     [(''a.com'', Inr (fst (analyze_dns_records x_com_world ''a.com''))),
      (''b.com'', Inl boom),
      (''x.com'', Inr (fst (analyze_dns_records x_com_world ''x.com'')))]"

section \<open>The record dictionary\<close>

lemma analyze_loop_records:
  "fst (analyze_loop world dname ts (recs, out)) =
     foldl (\<lambda>rs t. AList.update t (stored (fetch world dname t)) rs) recs ts"
  by (induction ts arbitrary: recs out) (auto simp: stored_def split: sum.splits)

lemma analyze_records_eq:
  "fst (analyze_dns_records world dname) =
     map (\<lambda>rtype. (rtype, stored (fetch world dname rtype))) types"
proof -
  have "fst (analyze_dns_records world dname) =
      foldl (\<lambda>rs t. AList.update t (stored (fetch world dname t)) rs) [] types"
    by (simp only: analyze_dns_records_def analyze_loop_records)
  then show ?thesis
    by (simp add: types_def)
qed

lemma stored_fetch:
  "stored (fetch world dname rtype) =
     (case dns_resolve world dname rtype of
        Inl e \<Rightarrow> RStr (''Error: '' @ str_exn e)
      | Inr answers \<Rightarrow>
          (case format_answers rtype answers of
             Inr vals \<Rightarrow> RList vals
           | Inl e \<Rightarrow> RStr (''Error: '' @ str_exn e)))"
  by (simp add: stored_def fetch_def split: sum.splits)

lemma distinct_types: "distinct types"
  by (simp add: types_def)

lemma map_of_tabulate:
  "distinct ks \<Longrightarrow> k \<in> set ks \<Longrightarrow> map_of (map (\<lambda>x. (x, f x)) ks) k = Some (f k)"
  by (induction ks) auto

lemma lookup_record:
  "rtype \<in> set types \<Longrightarrow>
   map_of (fst (analyze_dns_records world dname)) rtype = Some (stored (fetch world dname rtype))"
  by (simp only: analyze_records_eq map_of_tabulate [OF distinct_types])

text \<open>
  C2. Whatever the resolver answers, the dictionary returned by \<open>analyze_dns_records\<close> has
  exactly the nine keys A, AAAA, MX, TXT, NS, CNAME, SOA, SRV, PTR, in this order. The
  value under each key is decided by that key's own query alone: the error string when the
  query (or the formatting of its answer) raises, the formatted list otherwise. A failure
  of one type therefore leaves the other eight entries as they are.
\<close>

theorem analyze_dns_records_all_types:
  "map fst (fst (analyze_dns_records world dname)) =
     [''A'', ''AAAA'', ''MX'', ''TXT'', ''NS'', ''CNAME'', ''SOA'', ''SRV'', ''PTR'']
   \<and> (\<forall>rtype \<in> set types.
        map_of (fst (analyze_dns_records world dname)) rtype =
          Some (case dns_resolve world dname rtype of
                  Inl e \<Rightarrow> RStr (''Error: '' @ str_exn e)
                | Inr answers \<Rightarrow>
                    (case format_answers rtype answers of
                       Inr vals \<Rightarrow> RList vals
                     | Inl e \<Rightarrow> RStr (''Error: '' @ str_exn e))))"
proof
  have "map fst (fst (analyze_dns_records world dname)) = types"
    by (simp add: analyze_records_eq comp_def)
  then show "map fst (fst (analyze_dns_records world dname)) =
     [''A'', ''AAAA'', ''MX'', ''TXT'', ''NS'', ''CNAME'', ''SOA'', ''SRV'', ''PTR'']"
    by (simp only: types_def)
next
  show "\<forall>rtype \<in> set types.
        map_of (fst (analyze_dns_records world dname)) rtype =
          Some (case dns_resolve world dname rtype of
                  Inl e \<Rightarrow> RStr (''Error: '' @ str_exn e)
                | Inr answers \<Rightarrow>
                    (case format_answers rtype answers of
                       Inr vals \<Rightarrow> RList vals
                     | Inl e \<Rightarrow> RStr (''Error: '' @ str_exn e)))"
  proof
    fix rtype assume "rtype \<in> set types"
    then have "map_of (fst (analyze_dns_records world dname)) rtype =
        Some (stored (fetch world dname rtype))"
      by (rule lookup_record)
    then show "map_of (fst (analyze_dns_records world dname)) rtype =
          Some (case dns_resolve world dname rtype of
                  Inl e \<Rightarrow> RStr (''Error: '' @ str_exn e)
                | Inr answers \<Rightarrow>
                    (case format_answers rtype answers of
                       Inr vals \<Rightarrow> RList vals
                     | Inl e \<Rightarrow> RStr (''Error: '' @ str_exn e)))"
      by (simp only: stored_fetch)
  qed
qed

text \<open>
  For \<open>x.com\<close> the MX query fails and the A query succeeds: both keys are present, one with
  the error string, one with the address list.
\<close>

theorem analyze_dns_records_all_types_witness:
  "''MX'' \<in> set types \<and> ''A'' \<in> set types
   \<and> map_of (fst (analyze_dns_records x_com_world ''x.com'')) ''MX'' =
       Some (RStr ''Error: The DNS query name does not exist'')
   \<and> map_of (fst (analyze_dns_records x_com_world ''x.com'')) ''A'' =
       Some (RList [PyStr ''93.184.216.34''])
   \<and> length (fst (analyze_dns_records x_com_world ''x.com'')) = 9"
proof -
  have mx: "''MX'' \<in> set types" and a: "''A'' \<in> set types"
    by (simp_all add: types_def)
  note all = analyze_dns_records_all_types [of x_com_world "''x.com''"]
  have "length (map fst (fst (analyze_dns_records x_com_world ''x.com''))) = 9"
    by (simp only: all [THEN conjunct1]) simp
  then have len: "length (fst (analyze_dns_records x_com_world ''x.com'')) = 9"
    by simp
  have "map_of (fst (analyze_dns_records x_com_world ''x.com'')) ''MX'' =
       Some (RStr ''Error: The DNS query name does not exist'')"
    by (simp only: all [THEN conjunct2, THEN bspec, OF mx])
       (simp add: x_com_world_def x_com_resolver_def nxdomain_def)
  moreover have "map_of (fst (analyze_dns_records x_com_world ''x.com'')) ''A'' =
       Some (RList [PyStr ''93.184.216.34''])"
    by (simp only: all [THEN conjunct2, THEN bspec, OF a])
       (simp add: x_com_world_def x_com_resolver_def format_answers_def str_attr_def
          getattr_def no_attrs_def)
  ultimately show ?thesis
    using mx a len by simp
qed

section \<open>The SOA entry\<close>

lemma fetch_SOA:
  "dns_resolve world dname ''SOA'' = Inr (soa # others) \<Longrightarrow> mname soa = Some m \<Longrightarrow>
   rname soa = Some n \<Longrightarrow> serial soa = Some s \<Longrightarrow>
   fetch world dname ''SOA'' = Inr [PyStr m, PyStr n, PyInt s]"
  by (simp add: fetch_def format_answers_def getattr_def)

lemma SOA_in_types: "''SOA'' \<in> set types"
  by (simp add: types_def)

lemma x_com_SOA:
  "dns_resolve x_com_world ''x.com'' ''SOA'' =
     Inr [no_attrs\<lparr>mname := Some ''ns1.x.com.'', rname := Some ''admin.x.com.'',
                    serial := Some 2024\<rparr>,
          no_attrs\<lparr>mname := Some ''ns2.x.com.'', rname := Some ''root.x.com.'',
                    serial := Some 7\<rparr>]"
  by (simp add: x_com_world_def x_com_resolver_def)

text \<open>
  C7, as stated, fails: the SOA query of \<open>x.com\<close> succeeds and the value stored is not a
  sequence of strings, its third element is the integer serial.
\<close>

theorem soa_serial_not_a_string:
  "map_of (fst (analyze_dns_records x_com_world ''x.com'')) ''SOA'' =
     Some (RList [PyStr ''ns1.x.com.'', PyStr ''admin.x.com.'', PyInt 2024])
   \<and> \<not> list_all is_str [PyStr ''ns1.x.com.'', PyStr ''admin.x.com.'', PyInt 2024]"
proof -
  have "fetch x_com_world ''x.com'' ''SOA'' =
      Inr [PyStr ''ns1.x.com.'', PyStr ''admin.x.com.'', PyInt 2024]"
    by (rule fetch_SOA [OF x_com_SOA]) (simp_all add: no_attrs_def)
  then show ?thesis
    by (simp add: lookup_record [OF SOA_in_types] stored_def)
qed

text \<open>
  C7, amended. When the SOA query succeeds, the value stored under SOA is the list of
  \<open>str(mname)\<close>, \<open>str(rname)\<close> and the serial as the integer it is, all three read from
  the first answer; further answers are ignored and are not an error.
\<close>

theorem soa_first_answer_only:
  "dns_resolve world dname ''SOA'' = Inr (soa # others) \<Longrightarrow> mname soa = Some m \<Longrightarrow>
   rname soa = Some n \<Longrightarrow> serial soa = Some s \<Longrightarrow>
   map_of (fst (analyze_dns_records world dname)) ''SOA'' =
     Some (RList [PyStr m, PyStr n, PyInt s])"
  by (simp add: lookup_record [OF SOA_in_types] fetch_SOA stored_def)

theorem soa_first_answer_only_witness:
  "dns_resolve x_com_world ''x.com'' ''SOA'' =
     Inr [no_attrs\<lparr>mname := Some ''ns1.x.com.'', rname := Some ''admin.x.com.'',
                    serial := Some 2024\<rparr>,
          no_attrs\<lparr>mname := Some ''ns2.x.com.'', rname := Some ''root.x.com.'',
                    serial := Some 7\<rparr>]
   \<and> map_of (fst (analyze_dns_records x_com_world ''x.com'')) ''SOA'' =
       Some (RList [PyStr ''ns1.x.com.'', PyStr ''admin.x.com.'', PyInt 2024])"
  using soa_first_answer_only [OF x_com_SOA, of "''ns1.x.com.''" "''admin.x.com.''" 2024]
  by (simp add: x_com_SOA no_attrs_def)

section \<open>The zone-transfer probe and the alert\<close>

lemma check_zone_transfer_value:
  "fst (check_zone_transfer world dname nameserver) =
     (case dns_xfr world nameserver dname of Inr data \<Rightarrow> data | Inl e \<Rightarrow> [])"
  by (simp add: check_zone_transfer_def split: sum.splits)

lemma exposed_iff:
  "exposed world dname nameserver \<longleftrightarrow>
     (\<exists>data. dns_xfr world nameserver dname = Inr data \<and> data \<noteq> [])"
  by (simp add: exposed_def check_zone_transfer_value split: sum.splits)

lemma probe_loop_body:
  "fst (probe_loop world dname ns (body, out)) =
     body @ map (alert_line dname) (filter (exposed world dname) ns)"
  by (induction ns arbitrary: body out) (auto simp: exposed_def split: prod.splits)

lemma alert_loop_body:
  "fst (alert_loop world res (body, out)) =
     body @ map (\<lambda>(d, n). alert_line d n) (exposed_pairs world res)"
proof (induction res arbitrary: body out)
  case Nil
  then show ?case by (simp add: exposed_pairs_def)
next
  case (Cons p res)
  obtain d recs where p: "p = (d, recs)" by (cases p)
  obtain ns w where g: "get_nameservers world d = (ns, w)" by (cases "get_nameservers world d")
  obtain b' o' where pl: "probe_loop world d ns (body, out @ w) = (b', o')"
    by (cases "probe_loop world d ns (body, out @ w)")
  have b': "b' = body @ map (alert_line d) (filter (exposed world d) ns)"
    using probe_loop_body [of world d ns body "out @ w"] pl by simp
  show ?case
    using Cons.IH [of b' o'] by (simp add: p g pl b' exposed_pairs_def comp_def)
qed

lemma exposed_pairs_exposed:
  "(d, n) \<in> set (exposed_pairs world res) \<Longrightarrow> exposed world d n"
  by (auto simp: exposed_pairs_def)

text \<open>
  C3, as stated, fails: the first nameserver permits the transfer of \<open>x.com\<close> and the
  zone has no line; \<open>check_zone_transfer\<close> returns what it returns when the server
  refuses, and the caller's test does not count the pair as exposed.
\<close>

theorem empty_zone_returned_as_denied:
  "dns_xfr empty_zone_world ''ns1.x.com.'' ''x.com'' = Inr []
   \<and> dns_xfr refusing_world ''ns1.x.com.'' ''x.com'' = Inl refused
   \<and> fst (check_zone_transfer empty_zone_world ''x.com'' ''ns1.x.com.'') =
       fst (check_zone_transfer refusing_world ''x.com'' ''ns1.x.com.'')
   \<and> \<not> exposed empty_zone_world ''x.com'' ''ns1.x.com.''"
  by (simp add: empty_zone_world_def refusing_world_def empty_ns1_def refuse_all_def
      check_zone_transfer_def exposed_def)

text \<open>
  C3, amended. \<open>check_zone_transfer\<close> never raises: it returns the lines of the zone when
  the transfer is permitted and the empty list on any failure. Its value counts as
  exposed exactly when the transfer is permitted and the zone has at least one line.
\<close>

theorem check_zone_transfer_outcome:
  "fst (check_zone_transfer world dname nameserver) =
     (case dns_xfr world nameserver dname of Inr data \<Rightarrow> data | Inl e \<Rightarrow> [])
   \<and> (exposed world dname nameserver \<longleftrightarrow>
        (\<exists>data. dns_xfr world nameserver dname = Inr data \<and> data \<noteq> []))"
  by (simp only: check_zone_transfer_value exposed_iff simp_thms)

theorem check_zone_transfer_outcome_witness:
  "fst (check_zone_transfer x_com_world ''x.com'' ''ns1.x.com.'') = [''a.'', ''b.'']
   \<and> exposed x_com_world ''x.com'' ''ns1.x.com.''
   \<and> fst (check_zone_transfer x_com_world ''x.com'' ''ns2.x.com.'') = []
   \<and> \<not> exposed x_com_world ''x.com'' ''ns2.x.com.''"
  using check_zone_transfer_outcome [of x_com_world "''x.com''" "''ns1.x.com.''"]
    check_zone_transfer_outcome [of x_com_world "''x.com''" "''ns2.x.com.''"]
  by (simp add: x_com_world_def open_ns1_def)

text \<open>
  C10. When the server permits the transfer and the zone has no line,
  \<open>check_zone_transfer\<close> returns the empty list, the value it returns in any world where
  the same request fails; the alert loop adds no line for the pair (probing the
  nameserver leaves the body as if it had been skipped), and the pair is not among the
  exposed pairs of any results.
\<close>

theorem empty_zone_indistinguishable:
  "dns_xfr world nameserver dname = Inr [] \<Longrightarrow> dns_xfr world' nameserver dname = Inl e \<Longrightarrow>
   fst (check_zone_transfer world dname nameserver) = []
   \<and> fst (check_zone_transfer world dname nameserver) =
       fst (check_zone_transfer world' dname nameserver)
   \<and> fst (probe_loop world dname (nameserver # rest) (body, out)) =
       fst (probe_loop world dname rest (body, out))
   \<and> (dname, nameserver) \<notin> set (exposed_pairs world res)"
proof -
  assume w: "dns_xfr world nameserver dname = Inr []"
    and w': "dns_xfr world' nameserver dname = Inl e"
  have ne: "\<not> exposed world dname nameserver"
    by (simp add: exposed_iff w)
  have np: "(dname, nameserver) \<notin> set (exposed_pairs world res)"
    using ne exposed_pairs_exposed by blast
  have pl: "fst (probe_loop world dname (nameserver # rest) (body, out)) =
      fst (probe_loop world dname rest (body, out))"
    by (simp only: probe_loop_body) (simp add: ne)
  have "fst (check_zone_transfer world dname nameserver) = []"
    and "fst (check_zone_transfer world' dname nameserver) = []"
    by (simp_all add: check_zone_transfer_value w w')
  then show ?thesis
    using np pl by simp
qed

theorem empty_zone_indistinguishable_witness:
  "dns_xfr empty_zone_world ''ns1.x.com.'' ''x.com'' = Inr []
   \<and> dns_xfr refusing_world ''ns1.x.com.'' ''x.com'' = Inl refused
   \<and> fst (check_zone_transfer empty_zone_world ''x.com'' ''ns1.x.com.'') = []
   \<and> fst (check_zone_transfer refusing_world ''x.com'' ''ns1.x.com.'') = []
   \<and> fst (probe_loop empty_zone_world ''x.com'' [''ns1.x.com.''] ([], [])) = []
   \<and> (''x.com'', ''ns1.x.com.'') \<notin> set (exposed_pairs empty_zone_world [(''x.com'', [])])"
proof -
  have h1: "dns_xfr empty_zone_world ''ns1.x.com.'' ''x.com'' = Inr []"
    by (simp add: empty_zone_world_def empty_ns1_def)
  have h2: "dns_xfr refusing_world ''ns1.x.com.'' ''x.com'' = Inl refused"
    by (simp add: refusing_world_def refuse_all_def)
  note t = empty_zone_indistinguishable [OF h1 h2, of "[]" "[]" "[]" "[(''x.com'', [])]"]
  have a: "fst (check_zone_transfer empty_zone_world ''x.com'' ''ns1.x.com.'') = []"
    using t by (rule conjunct1)
  have b: "fst (check_zone_transfer refusing_world ''x.com'' ''ns1.x.com.'') = []"
    using t [THEN conjunct2, THEN conjunct1] a by simp
  have "fst (probe_loop empty_zone_world ''x.com'' [''ns1.x.com.''] ([], [])) =
      fst (probe_loop empty_zone_world ''x.com'' [] ([], []))"
    by (rule t [THEN conjunct2, THEN conjunct2, THEN conjunct1])
  also have "\<dots> = []"
    by simp
  finally have c: "fst (probe_loop empty_zone_world ''x.com'' [''ns1.x.com.''] ([], [])) = []" .
  have d: "(''x.com'', ''ns1.x.com.'') \<notin> set (exposed_pairs empty_zone_world [(''x.com'', [])])"
    using t by blast
  show ?thesis
    using h1 h2 a b c d by (simp only: simp_thms)
qed

section \<open>The pool\<close>

lemma as_completed_mset: "mset (as_completed ks xs) = mset xs"
proof (induction ks xs rule: as_completed.induct)
  case (3 k ks x xs)
  let ?ys = "x # xs"
  let ?i = "k mod length ?ys"
  have i: "?i < length ?ys" by simp
  have "mset ?ys = mset (take ?i ?ys @ ?ys ! ?i # drop (Suc ?i) ?ys)"
    using id_take_nth_drop [OF i] by simp
  then show ?case using 3 by (simp add: Let_def del: take_Cons' drop_Suc_Cons nth_Cons')
qed simp_all

lemma collect_eq:
  "collect fs (res, out) =
     (foldl (\<lambda>rs (d, recs). AList.update d recs rs) res (successes fs),
      out @ map (\<lambda>(d, e). Log ERROR (ErrorAnalyzing d e)) (failures fs))"
proof (induction fs arbitrary: res out)
  case Nil then show ?case by simp
next
  case (Cons f fs)
  obtain d r where f: "f = (d, r)" by (cases f)
  show ?case by (cases r) (simp_all add: f Cons.IH)
qed

lemma foldl_update_keys:
  "fst ` set (foldl (\<lambda>rs (d, recs). AList.update d recs rs) res ps) = fst ` set res \<union> fst ` set ps"
proof (induction ps arbitrary: res)
  case Nil then show ?case by simp
next
  case (Cons p ps)
  obtain d r where p: "p = (d, r)" by (cases p)
  have "fst ` set (AList.update d r res) = insert d (fst ` set res)"
    by (simp add: dom_update)
  then show ?case
    by (simp add: p Cons.IH)
qed

lemma foldl_update_distinct:
  "distinct (map fst res) \<Longrightarrow>
   distinct (map fst (foldl (\<lambda>rs (d, recs). AList.update d recs rs) res ps))"
proof (induction ps arbitrary: res)
  case Nil then show ?case by simp
next
  case (Cons p ps)
  obtain d r where p: "p = (d, r)" by (cases p)
  show ?case
    using Cons.prems by (simp add: p Cons.IH distinct_update)
qed

lemma foldl_update_map_of:
  "map_of (foldl (\<lambda>rs (d, recs). AList.update d recs rs) res ps) = map_of res ++ map_of (rev ps)"
proof (induction ps arbitrary: res)
  case Nil then show ?case by simp
next
  case (Cons p ps)
  obtain d r where p: "p = (d, r)" by (cases p)
  have "map_of (AList.update d r res) ++ map_of (rev ps) =
      map_of res ++ ([d \<mapsto> r] ++ map_of (rev ps))"
    by (auto simp: update_conv' map_add_def fun_eq_iff split: option.splits)
  then show ?case
    by (simp add: p Cons.IH)
qed


lemma set_successes: "set (successes fs) = {(d, recs). (d, Inr recs) \<in> set fs}"
  by (induction fs rule: successes.induct) auto

lemma set_failures: "set (failures fs) = {(d, e). (d, Inl e) \<in> set fs}"
  by (induction fs rule: failures.induct) auto

lemma length_failures: "length (failures fs) = length (filter (\<lambda>f. isl (snd f)) fs)"
  by (induction fs rule: failures.induct) auto

lemma length_successes: "length (successes fs) = length fs - length (filter (\<lambda>f. isl (snd f)) fs)"
proof (induction fs rule: successes.induct)
  case (2 d recs fs)
  have "length (filter (\<lambda>f. isl (snd f)) fs) \<le> length fs" by simp
  with 2 show ?case by (simp add: Suc_diff_le)
qed simp_all

lemma distinct_successes: "distinct (map fst fs) \<Longrightarrow> distinct (map fst (successes fs))"
proof (induction fs rule: successes.induct)
  case (2 d recs fs)
  have "fst ` set (successes fs) \<subseteq> fst ` set fs"
    by (force simp: set_successes)
  with 2 show ?case by auto
qed simp_all

lemma as_completed_distinct:
  "distinct (map fst (as_completed ks fs)) = distinct (map fst fs)"
proof -
  have "mset (map fst (as_completed ks fs)) = mset (map fst fs)"
    by (simp add: as_completed_mset)
  then show ?thesis by (rule mset_eq_imp_distinct_iff)
qed

lemma as_completed_set: "set (as_completed ks fs) = set fs"
  using as_completed_mset [of ks fs] by (rule mset_eq_setD)

lemma as_completed_length: "length (as_completed ks fs) = length fs"
  using as_completed_mset [of ks fs] by (rule mset_eq_length)

lemma as_completed_filter_length:
  "length (filter P (as_completed ks fs)) = length (filter P fs)"
proof -
  have "mset (filter P (as_completed ks fs)) = mset (filter P fs)"
    by (simp add: as_completed_mset)
  then show ?thesis by (rule mset_eq_length)
qed

lemma length_foldl_update:
  assumes "distinct (map fst ps)"
  shows "length (foldl (\<lambda>rs (d, recs). AList.update d recs rs) [] ps) = length ps"
proof -
  let ?res = "foldl (\<lambda>rs (d, recs). AList.update d recs rs) [] ps"
  have d: "distinct (map fst ?res)"
    by (rule foldl_update_distinct) simp
  have "length ?res = length (map fst ?res)" by simp
  also have "\<dots> = card (set (map fst ?res))"
    using d by (simp only: distinct_card)
  also have "set (map fst ?res) = set (map fst ps)"
    by (simp add: foldl_update_keys)
  also have "card (set (map fst ps)) = length (map fst ps)"
    using assms by (simp only: distinct_card)
  finally show ?thesis by simp
qed

lemma lookup_foldl_update:
  assumes "distinct (map fst ps)"
  shows "map_of (foldl (\<lambda>rs (d, recs). AList.update d recs rs) [] ps) = map_of ps"
proof -
  have "distinct (map fst (rev ps))"
    using assms by (simp add: rev_map [symmetric])
  then have "map_of (rev ps) = map_of ps"
    by (intro map_of_inject_set [THEN iffD2]) (simp_all add: assms)
  then show ?thesis
    by (simp add: foldl_update_map_of)
qed

text \<open>
  C4, as stated, fails: two domains are submitted, both \<open>x.com\<close>, no future raises, and
  the results hold one entry, not two.
\<close>

theorem duplicate_domains_one_entry:
  "failures (fst (submit_all x_com_world [''x.com'', ''x.com''])) = []
   \<and> length (fst (orchestrate x_com_world [''x.com'', ''x.com''] [])) = 1
   \<and> length (fst (orchestrate x_com_world [''x.com'', ''x.com''] [])) \<noteq>
       length [''x.com'', ''x.com''] -
       length (failures (fst (submit_all x_com_world [''x.com'', ''x.com''])))"
  by code_simp

text \<open>
  C4, amended. Take N futures for pairwise distinct domains, K of which hold an
  exception, completing in any order. The loop catches each exception and logs one
  \<open>Error analyzing\<close> record for it, leaves that domain out of the results, stores the
  records of every other future under its domain, and ends with exactly N - K entries.
\<close>

theorem collect_omits_failed:
  assumes "distinct (map fst futures)"
  shows "length (fst (collect (as_completed ks futures) ([], out))) =
           length futures - length (filter (\<lambda>f. isl (snd f)) futures)
       \<and> (\<forall>d recs. (d, Inr recs) \<in> set futures \<longrightarrow>
             map_of (fst (collect (as_completed ks futures) ([], out))) d = Some recs)
       \<and> (\<forall>d e. (d, Inl e) \<in> set futures \<longrightarrow>
             map_of (fst (collect (as_completed ks futures) ([], out))) d = None
             \<and> Log ERROR (ErrorAnalyzing d e) \<in> set (snd (collect (as_completed ks futures) ([], out))))
       \<and> length (snd (collect (as_completed ks futures) ([], out))) =
           length out + length (filter (\<lambda>f. isl (snd f)) futures)"
proof -
  let ?fs = "as_completed ks futures"
  let ?ps = "successes ?fs"
  have dfs: "distinct (map fst ?fs)"
    using assms by (simp only: as_completed_distinct)
  have dps: "distinct (map fst ?ps)"
    using dfs by (rule distinct_successes)
  have res: "fst (collect ?fs ([], out)) = foldl (\<lambda>rs (d, recs). AList.update d recs rs) [] ?ps"
    by (simp add: collect_eq)
  have lg: "snd (collect ?fs ([], out)) =
      out @ map (\<lambda>(d, e). Log ERROR (ErrorAnalyzing d e)) (failures ?fs)"
    by (simp add: collect_eq)
  have lookup: "map_of (fst (collect ?fs ([], out))) = map_of ?ps"
    by (simp only: res lookup_foldl_update [OF dps])
  have c1: "length (fst (collect ?fs ([], out))) =
           length futures - length (filter (\<lambda>f. isl (snd f)) futures)"
    by (simp only: res length_foldl_update [OF dps] length_successes
        as_completed_length as_completed_filter_length)
  have c2: "map_of (fst (collect ?fs ([], out))) d = Some recs"
    if "(d, Inr recs) \<in> set futures" for d recs
  proof -
    have "(d, recs) \<in> set ?ps"
      using that by (simp add: set_successes as_completed_set)
    then show ?thesis
      using dps by (simp add: lookup)
  qed
  have c3: "map_of (fst (collect ?fs ([], out))) d = None
      \<and> Log ERROR (ErrorAnalyzing d e) \<in> set (snd (collect ?fs ([], out)))"
    if "(d, Inl e) \<in> set futures" for d e
  proof -
    have inl: "(d, Inl e) \<in> set ?fs"
      using that by (simp add: as_completed_set)
    have "d \<notin> fst ` set ?ps"
    proof
      assume "d \<in> fst ` set ?ps"
      then obtain recs where "(d, Inr recs) \<in> set ?fs"
        by (auto simp: set_successes)
      with inl dfs have "Inl e = (Inr recs :: exn + records)"
        by (meson eq_key_imp_eq_value)
      then show False by simp
    qed
    then have "map_of ?ps d = None"
      by (simp add: map_of_eq_None_iff)
    moreover have "(d, e) \<in> set (failures ?fs)"
      using inl by (simp add: set_failures)
    then have "Log ERROR (ErrorAnalyzing d e) \<in> set (snd (collect ?fs ([], out)))"
      by (force simp: lg)
    ultimately show ?thesis
      by (simp add: lookup)
  qed
  have c4: "length (snd (collect ?fs ([], out))) =
           length out + length (filter (\<lambda>f. isl (snd f)) futures)"
    by (simp add: lg length_failures as_completed_filter_length)
  show ?thesis
    using c1 c2 c3 c4 by blast
qed

theorem collect_omits_failed_witness:
  "distinct (map fst three_futures)
   \<and> length (fst (collect (as_completed [2, 0] three_futures) ([], []))) = 2
   \<and> map_of (fst (collect (as_completed [2, 0] three_futures) ([], []))) ''x.com'' =
       Some (fst (analyze_dns_records x_com_world ''x.com''))
   \<and> map_of (fst (collect (as_completed [2, 0] three_futures) ([], []))) ''b.com'' = None
   \<and> Log ERROR (ErrorAnalyzing ''b.com'' boom)
       \<in> set (snd (collect (as_completed [2, 0] three_futures) ([], [])))
   \<and> length (snd (collect (as_completed [2, 0] three_futures) ([], []))) = 1"
proof -
  have h: "distinct (map fst three_futures)"
    by (simp add: three_futures_def)
  note t = collect_omits_failed [OF h, of "[2, 0]" "[]"]
  have n: "length three_futures - length (filter (\<lambda>f. isl (snd f)) three_futures) = 2"
    and k: "length (filter (\<lambda>f. isl (snd f)) three_futures) = 1"
    by (simp_all add: three_futures_def)
  have x: "(''x.com'', Inr (fst (analyze_dns_records x_com_world ''x.com''))) \<in> set three_futures"
    and b: "(''b.com'', Inl boom) \<in> set three_futures"
    by (simp_all add: three_futures_def)
  have 1: "length (fst (collect (as_completed [2, 0] three_futures) ([], []))) = 2"
    using t n by simp
  have 2: "map_of (fst (collect (as_completed [2, 0] three_futures) ([], []))) ''x.com'' =
       Some (fst (analyze_dns_records x_com_world ''x.com''))"
    using t x by blast
  have 3: "map_of (fst (collect (as_completed [2, 0] three_futures) ([], []))) ''b.com'' = None
     \<and> Log ERROR (ErrorAnalyzing ''b.com'' boom)
       \<in> set (snd (collect (as_completed [2, 0] three_futures) ([], [])))"
    using t b by blast
  have 4: "length (snd (collect (as_completed [2, 0] three_futures) ([], []))) = 1"
    using t k by simp
  show ?thesis
    using h 1 2 3 4 by simp
qed

section \<open>Duplicate domains\<close>

lemma orchestrate_eq:
  "orchestrate world domains out0 =
     collect (as_completed (completion_order world)
                (map (\<lambda>d. (d, Inr (fst (analyze_dns_records world d)))) domains))
       ([], out0 @ concat (map (\<lambda>d. snd (analyze_dns_records world d)) domains))"
  by (simp add: orchestrate_def submit_all_def)

lemma set_successes_submitted:
  "set (successes (as_completed ks (map (\<lambda>d. (d, Inr (f d))) ds))) = (\<lambda>d. (d, f d)) ` set ds"
  by (auto simp: set_successes as_completed_set)

lemma map_of_functional:
  assumes "\<forall>(k, v) \<in> set ps. v = f k" and "k \<in> fst ` set ps"
  shows "map_of ps k = Some (f k)"
proof -
  have "map_of ps k \<noteq> None"
    using assms(2) by (simp add: map_of_eq_None_iff)
  then obtain v where v: "map_of ps k = Some v"
    by blast
  then have "(k, v) \<in> set ps"
    by (rule map_of_SomeD)
  with assms(1) have "v = f k"
    by blast
  with v show ?thesis
    by simp
qed

lemma collect_last_writer:
  "map_of (fst (collect futures ([], out))) = map_of (rev (successes futures))"
  by (simp add: collect_eq foldl_update_map_of)

text \<open>
  C8. Whatever the list of domains and the order of completion, the results hold exactly
  one entry per distinct domain of the list, and the entry of a domain is the whole
  dictionary returned by its scan. In the loop itself a later future for the same domain
  replaces the whole value stored by an earlier one: looking a domain up gives the
  records of the last finished future that holds records for it.
\<close>

theorem orchestrate_one_entry_per_domain:
  "distinct (map fst (fst (orchestrate world domains out0)))
   \<and> set (map fst (fst (orchestrate world domains out0))) = set domains
   \<and> length (fst (orchestrate world domains out0)) = card (set domains)
   \<and> (\<forall>d \<in> set domains.
        map_of (fst (orchestrate world domains out0)) d =
          Some (fst (analyze_dns_records world d)))
   \<and> map_of (fst (collect futures ([], out))) = map_of (rev (successes futures))"
proof -
  let ?f = "\<lambda>d. fst (analyze_dns_records world d)"
  let ?ps = "successes (as_completed (completion_order world) (map (\<lambda>d. (d, Inr (?f d))) domains))"
  let ?res = "fst (orchestrate world domains out0)"
  have res: "?res = foldl (\<lambda>rs (d, recs). AList.update d recs rs) [] ?ps"
    by (simp add: orchestrate_eq collect_eq)
  have ps: "set ?ps = (\<lambda>d. (d, ?f d)) ` set domains"
    by (rule set_successes_submitted)
  have keys_ps: "fst ` set ?ps = set domains"
    by (simp add: ps image_image)
  have 1: "distinct (map fst ?res)"
    unfolding res by (rule foldl_update_distinct) simp
  have 2: "set (map fst ?res) = set domains"
    by (simp add: res foldl_update_keys keys_ps)
  have "length ?res = length (map fst ?res)"
    by simp
  also have "\<dots> = card (set (map fst ?res))"
    using 1 by (simp only: distinct_card)
  finally have 3: "length ?res = card (set domains)"
    by (simp only: 2)
  have lookup: "map_of ?res = map_of (rev ?ps)"
    by (simp add: res foldl_update_map_of)
  have 4: "map_of ?res d = Some (?f d)" if "d \<in> set domains" for d
  proof -
    have "\<forall>(k, v) \<in> set (rev ?ps). v = ?f k"
      by (auto simp: ps)
    moreover have "d \<in> fst ` set (rev ?ps)"
      using that keys_ps by simp
    ultimately have "map_of (rev ?ps) d = Some (?f d)"
      by (rule map_of_functional)
    then show ?thesis
      by (simp only: lookup)
  qed
  show ?thesis
    using 1 2 3 4 collect_last_writer by blast
qed

text \<open>The list \<open>["x.com", "x.com"]\<close> gives the one key \<open>x.com\<close> with its whole dictionary.\<close>

theorem orchestrate_one_entry_per_domain_witness:
  "''x.com'' \<in> set [''x.com'', ''x.com'']
   \<and> map fst (fst (orchestrate x_com_world [''x.com'', ''x.com''] [])) = [''x.com'']
   \<and> map_of (fst (orchestrate x_com_world [''x.com'', ''x.com''] [])) ''x.com'' =
       Some (fst (analyze_dns_records x_com_world ''x.com''))"
proof -
  have h: "''x.com'' \<in> set [''x.com'', ''x.com'']"
    by simp
  note t = orchestrate_one_entry_per_domain [of x_com_world "[''x.com'', ''x.com'']" "[]"]
  have k: "map fst (fst (orchestrate x_com_world [''x.com'', ''x.com''] [])) = [''x.com'']"
    by code_simp
  have "map_of (fst (orchestrate x_com_world [''x.com'', ''x.com''] [])) ''x.com'' =
       Some (fst (analyze_dns_records x_com_world ''x.com''))"
    using t h by blast
  then show ?thesis
    using h k by simp
qed

section \<open>The module does not compile\<close>

lemma line_204_open: "short_strings None line_204 = Unterminated (CHR 0x27)"
  by code_simp

lemma module_error_eq: "module_error = Some syntax_error"
  by (simp add: module_error_def line_204_open)

lemma run_module_eq: "run_module statements = (Some syntax_error, [])"
  by (simp add: run_module_def module_error_eq)

text \<open>
  C5 against the code. The last argument of the call that would send the alert, the
  message body, begins at the end of line 204 with a quote that is not closed on that
  line (the quote that would close it is the first character of line 205): the file is
  not valid Python, the compiler raises \<open>SyntaxError\<close>, and whatever the
  statements of the module would do, no message is built or delivered. This is so
  although \<open>x.com\<close> has an exposed pair and the loop of lines 193 to 198 collects its
  line in the format of the claim.
\<close>

theorem message_body_never_built:
  "short_strings None line_204 = Unterminated (CHR 0x27)
   \<and> short_strings (Some (CHR 0x27)) line_205 = Balanced
   \<and> module_error = Some syntax_error
   \<and> mails (snd (run_module statements)) = []
   \<and> exposed_pairs x_com_world [(''x.com'', [])] = [(''x.com'', ''ns1.x.com.'')]
   \<and> fst (alert_loop x_com_world [(''x.com'', [])] ([], [])) =
       [''[ALERT] x.com allows zone transfer on ns1.x.com.'']"
proof -
  have p: "exposed_pairs x_com_world [(''x.com'', [])] = [(''x.com'', ''ns1.x.com.'')]"
    by code_simp
  have "fst (alert_loop x_com_world [(''x.com'', [])] ([], [])) =
      map (\<lambda>(d, n). alert_line d n) [(''x.com'', ''ns1.x.com.'')]"
    by (simp only: alert_loop_body p append_Nil)
  then have l: "fst (alert_loop x_com_world [(''x.com'', [])] ([], [])) =
       [''[ALERT] x.com allows zone transfer on ns1.x.com.'']"
    by (simp add: alert_line_def)
  have c: "short_strings (Some (CHR 0x27)) line_205 = Balanced"
    by code_simp
  show ?thesis
    using p l c by (simp add: line_204_open module_error_eq run_module_eq)
qed

text \<open>
  C9 against the code. Whatever the statements of the module would do, none of them
  runs: the process ends with the compiler's \<open>SyntaxError\<close> and makes no record query, so
  the pipeline runs not once but never and no results are built.
\<close>

theorem module_runs_no_statement:
  "run_module statements = (Some syntax_error, [])
   \<and> queries (snd (run_module statements)) = []
   \<and> probes (snd (run_module statements)) = []"
  by (simp add: run_module_eq)

text \<open>
  C6 against the code. With no domain and no inventory, or with an inventory file that
  does not exist, the process ends with exit status 1 and without a scan, but what ends
  it is the compiler's \<open>SyntaxError\<close>: nothing is printed, the hint of line 169 included.
  In the text of \<open>main\<close>, the first case prints the hint and returns; the second writes a
  log record only and goes on with no domain.
\<close>

theorem usage_message_never_printed:
  "exit_status (run_module statements) = 1
   \<and> printed (snd (run_module statements)) = []
   \<and> queries (snd (run_module statements)) = []
   \<and> select_domains no_args x_com_world =
       (Inr None, [Print ''Specify --inventory or a single domain''])
   \<and> \<not> path_exists x_com_world ''list.txt''
   \<and> select_domains (no_args\<lparr>inventory := Some ''list.txt''\<rparr>) x_com_world =
       (Inr (Some []), [Log ERROR (InventoryNotFound ''list.txt'')])"
proof -
  have 1: "select_domains no_args x_com_world =
       (Inr None, [Print ''Specify --inventory or a single domain''])"
    by (simp add: select_domains_def no_args_def truthy_def)
  have 2: "\<not> path_exists x_com_world ''list.txt''"
    by (simp add: x_com_world_def)
  have 3: "select_domains (no_args\<lparr>inventory := Some ''list.txt''\<rparr>) x_com_world =
       (Inr (Some []), [Log ERROR (InventoryNotFound ''list.txt'')])"
    using 2 by (simp add: select_domains_def truthy_def load_inventory_def)
  show ?thesis
    using 1 2 3 by (simp add: run_module_eq exit_status_def)
qed

section \<open>The zone-transfer flag\<close>

lemma probes_append: "probes (xs @ ys) = probes xs @ probes ys"
  by (induction xs rule: probes.induct) simp_all

lemma probes_analyze_loop:
  "probes (snd (analyze_loop world dname ts (recs, out))) = probes out"
  by (induction ts arbitrary: recs out) (simp_all add: probes_append split: sum.splits)

lemma probes_analyze: "probes (snd (analyze_dns_records world dname)) = []"
  by (simp add: analyze_dns_records_def probes_analyze_loop)

lemma probes_tasks:
  "probes (concat (map (\<lambda>d. snd (analyze_dns_records world d)) domains)) = []"
  by (induction domains) (simp_all add: probes_append probes_analyze)

lemma probes_task_errors:
  "probes (map (\<lambda>(d, e). Log ERROR (ErrorAnalyzing d e)) fs) = []"
  by (induction fs) (simp_all split: prod.splits)

lemma probes_orchestrate: "probes (snd (orchestrate world domains out0)) = probes out0"
  by (simp add: orchestrate_eq collect_eq probes_append probes_tasks probes_task_errors)

text \<open>
  C1 against the code. No block of \<open>main\<close> reads \<open>args.zone_transfer\<close>: the choice of the
  domains, the report and the condition of the alert block give the same with the flag
  as without it, and the pool, which builds the results, takes no option at all and
  tries no zone transfer, whatever the world and the domains. For \<open>x.com\<close>, whose first
  nameserver permits the transfer, the results hold the nine record entries and no
  probe was made.
\<close>

theorem zone_transfer_flag_read_nowhere:
  "select_domains (a\<lparr>zone_transfer := b\<rparr>) world = select_domains a world
   \<and> reporting (a\<lparr>zone_transfer := b\<rparr>) world res = reporting a world res
   \<and> alert_enabled (a\<lparr>zone_transfer := b\<rparr>) = alert_enabled a
   \<and> probes (snd (orchestrate world domains out0)) = probes out0
   \<and> exposed x_com_world ''x.com'' ''ns1.x.com.''
   \<and> probes (snd (orchestrate x_com_world [''x.com''] [])) = []
   \<and> fst (orchestrate x_com_world [''x.com''] []) =
       [(''x.com'', fst (analyze_dns_records x_com_world ''x.com''))]"
proof -
  have 1: "select_domains (a\<lparr>zone_transfer := b\<rparr>) world = select_domains a world"
    by (simp add: select_domains_def split: option.splits)
  have 2: "reporting (a\<lparr>zone_transfer := b\<rparr>) world res = reporting a world res"
    by (simp add: reporting_def)
  have 3: "alert_enabled (a\<lparr>zone_transfer := b\<rparr>) = alert_enabled a"
    by (simp add: alert_enabled_def)
  have 4: "exposed x_com_world ''x.com'' ''ns1.x.com.''"
    by code_simp
  have 5: "fst (orchestrate x_com_world [''x.com''] []) =
       [(''x.com'', fst (analyze_dns_records x_com_world ''x.com''))]"
    by (simp add: orchestrate_def submit_all_def x_com_world_def)
  show ?thesis
    using 1 2 3 4 5 by (simp add: probes_orchestrate)
qed

end
